theory Spec2Isabelle
  imports Main
begin

section \<open>Render trees of the mobile UI toolkit\<close>

text \<open>
  A JSX expression \<^verbatim>\<open><C p={v}>kids</C>\<close> evaluates to an element: the component
  it names, its props, and its children. The two source files build such elements and
  do nothing else, so the embedding is the element tree itself.

  A style object literal is a list of keys with number or string values, in the order
  the source writes them.
\<close>

datatype style_value = Num int | Str string

type_synonym style = "(string \<times> style_value) list"

text \<open>
  The components that the sources import: \<^verbatim>\<open>View\<close>, \<^verbatim>\<open>Text\<close> and
  \<^verbatim>\<open>TouchableOpacity\<close> from \<^verbatim>\<open>react-native\<close>, and the \<^verbatim>\<open>Text\<close> of
  \<^verbatim>\<open>@react-navigation/elements\<close>, which the screen file uses instead.
\<close>

datatype component = RN_View | RN_Text | RN_TouchableOpacity | Nav_Text

text \<open>
  A prop is a style object or a callback. A callback acts on the state of the
  application, of which nothing is known here: the type \<open>'s\<close>.
\<close>

datatype 's prop_value = Style style | Callback "'s \<Rightarrow> 's"

datatype 's node =
    Element component "(string \<times> 's prop_value) list" "'s node list"
  | TextNode string

subsection \<open>Reading a render tree\<close>

fun el_type :: "'s node \<Rightarrow> component option" where
  "el_type (Element c ps cs) = Some c"
| "el_type (TextNode t) = None"

fun props :: "'s node \<Rightarrow> (string \<times> 's prop_value) list" where
  "props (Element c ps cs) = ps"
| "props (TextNode t) = []"

fun children :: "'s node \<Rightarrow> 's node list" where
  "children (Element c ps cs) = cs"
| "children (TextNode t) = []"

text \<open>The value of a style key of an element, when it has a style and the key.\<close>

fun style_of :: "'s node \<Rightarrow> string \<Rightarrow> style_value option" where
  "style_of n k =
     (case map_of (props n) ''style'' of
        Some (Style st) \<Rightarrow> map_of st k
      | _ \<Rightarrow> None)"

text \<open>The text a tree shows: its text leaves, left to right.\<close>

fun visible_text :: "'s node \<Rightarrow> string" where
  "visible_text (TextNode t) = t"
| "visible_text (Element c ps cs) = concat (map visible_text cs)"

text \<open>The callbacks an element carries, under whatever prop name.\<close>

fun callbacks :: "'s node \<Rightarrow> (string \<times> ('s \<Rightarrow> 's)) list" where
  "callbacks n =
     concat (map (\<lambda>(k, v). case v of Callback h \<Rightarrow> [(k, h)] | Style st \<Rightarrow> [])
                 (props n))"

text \<open>
  The toolkit's side of a tap, which is not code of this repository: a touchable element
  that is pressed calls its \<^verbatim>\<open>onPress\<close> prop when it has one, and otherwise leaves
  the application as it is.
\<close>

fun press :: "'s node \<Rightarrow> 's \<Rightarrow> 's" where
  "press n s =
     (case map_of (props n) ''onPress'' of
        Some (Callback h) \<Rightarrow> h s
      | _ \<Rightarrow> s)"

section \<open>The button component\<close>

text \<open>
  \<^verbatim>\<open>type ButtonProps = { label: string }\<close>. TypeScript's object types are open: a
  caller may pass an object with more fields, which is the record's extension.
\<close>

record ButtonProps =
  label :: string

text \<open>
  \<^verbatim>\<open>colorPalette\<close> is imported from \<^verbatim>\<open>../styles/colors\<close>, a module that is not among
  the sources. The button reads its field \<^verbatim>\<open>colorBrand\<close> and nothing else of it, so
  the palette is a parameter: a record with that field and any others.
\<close>

record ColorPalette =
  colorBrand :: style_value

definition Button :: "'p ColorPalette_scheme \<Rightarrow> 'b ButtonProps_scheme \<Rightarrow> 's node" where
  "Button colorPalette p =
     Element RN_TouchableOpacity
       [(''style'', Style [(''backgroundColor'', colorBrand colorPalette),
                           (''borderRadius'', Num 24),
                           (''padding'', Num 12)])]
       [Element RN_Text
          [(''style'', Style [(''color'', Str ''white'')])]
          [TextNode (label p)]]"

section \<open>The home screen\<close>

text \<open>
  \<^verbatim>\<open>StyleSheet.create\<close> belongs to the toolkit; it hands back the style objects it is
  given.
\<close>

record Styles =
  container :: style

definition StyleSheet_create :: "Styles \<Rightarrow> Styles" where
  "StyleSheet_create s = s"

definition styles :: Styles where
  "styles = StyleSheet_create
     \<lparr>container = [(''flex'', Num 1),
                   (''justifyContent'', Str ''center''),
                   (''alignItems'', Str ''center''),
                   (''gap'', Num 10)]\<rparr>"

definition Home :: "unit \<Rightarrow> 's node" where
  "Home u =
     Element RN_View
       [(''style'', Style (container styles))]
       [Element Nav_Text [] [TextNode ''Hello Universe'']]"

section \<open>Rendering in the store of the process\<close>

text \<open>
  Besides its props, a render can see the bindings of other modules. The button's file
  imports one, \<^verbatim>\<open>colorPalette\<close>: an object that other code may hold and assign to.
  The store has that binding; whatever else the process holds is the record's
  extension.
\<close>

record 'p store =
  imported_colorPalette :: "'p ColorPalette_scheme"



section \<open>Properties\<close>

text \<open>
  C1. For every label, the empty one included, the text that the rendered button shows
  is the label itself, unchanged.
\<close>

theorem button_visible_text:
  "visible_text (Button colorPalette p) = label p"
  by (simp add: Button_def)

text \<open>
  C2. The home screen takes no input: any two calls give the same tree, and the text
  that tree shows is the literal \<^verbatim>\<open>Hello Universe\<close>.
\<close>

theorem home_visible_text:
  "Home u = Home v \<and> visible_text (Home u) = ''Hello Universe''"
  by (simp add: Home_def)

text \<open>
  C3. The background colour of the button's tappable surface is the palette's brand
  colour, whatever the palette and the label are.
\<close>

theorem button_background_color:
  "style_of (Button colorPalette p) ''backgroundColor'' = Some (colorBrand colorPalette)"
  by (simp add: Button_def)



text \<open>
  C5. For every label the button has rounded corners (a border radius of 24, which is
  not zero) and a padding of 12, and its one child is a text element that shows the
  label in the colour \<^verbatim>\<open>white\<close>.
\<close>

theorem button_fixed_style:
  "(\<exists>r. style_of (Button colorPalette p) ''borderRadius'' = Some (Num r) \<and> r = 24 \<and> 0 < r)
   \<and> style_of (Button colorPalette p) ''padding'' = Some (Num 12)
   \<and> (\<exists>t. children (Button colorPalette p) = [t]
          \<and> el_type t = Some RN_Text
          \<and> style_of t ''color'' = Some (Str ''white'')
          \<and> visible_text t = label p)"
  by (simp add: Button_def)

text \<open>
  C6. The button wires no tap handler: for every label its root element has no
  \<^verbatim>\<open>onPress\<close> prop and carries no callback at all, so a press leaves the state of the
  application as it was.
\<close>

theorem button_no_tap_handler:
  "map_of (props (Button colorPalette p)) ''onPress'' = None
   \<and> callbacks (Button colorPalette p) = []
   \<and> press (Button colorPalette p) s = s"
  by (simp add: Button_def)

text \<open>
  C7. The root of the home screen is a view whose style has \<^verbatim>\<open>flex\<close> 1,
  \<^verbatim>\<open>justifyContent\<close> \<^verbatim>\<open>center\<close> and \<^verbatim>\<open>alignItems\<close> \<^verbatim>\<open>center\<close>: it fills the
  area it is given and centres its content.
\<close>

theorem home_container_style:
  "el_type (Home u) = Some RN_View
   \<and> style_of (Home u) ''flex'' = Some (Num 1)
   \<and> style_of (Home u) ''justifyContent'' = Some (Str ''center'')
   \<and> style_of (Home u) ''alignItems'' = Some (Str ''center'')"
  by (simp add: Home_def styles_def StyleSheet_create_def)

text \<open>
  C9. The button's tree depends on the label and on the palette's brand colour only:
  two renders that agree on these two values are equal, whatever the other fields of
  the two palettes and of the two props objects are.
\<close>

theorem button_noninterference:
  fixes c :: "'a ColorPalette_scheme" and d :: "'b ColorPalette_scheme"
    and p :: "'c ButtonProps_scheme" and q :: "'d ButtonProps_scheme"
  assumes "label p = label q" and "colorBrand c = colorBrand d"
  shows "(Button c p :: 's node) = Button d q"
  using assms by (simp add: Button_def)

text \<open>
  The same at a concrete input: two palettes and two props objects that differ in
  everything but the brand colour and the label.
\<close>

theorem button_noninterference_witness:
  "(Button \<lparr>colorBrand = Str ''#0a7ea4'', \<dots> = True\<rparr> \<lparr>label = ''Save''\<rparr> :: unit node)
     = Button \<lparr>colorBrand = Str ''#0a7ea4'', \<dots> = ''dark''\<rparr>
              \<lparr>label = ''Save'', \<dots> = (7::nat)\<rparr>"
  by (rule button_noninterference) simp_all

text \<open>
  C10. For every label the button is one \<^verbatim>\<open>TouchableOpacity\<close> element with exactly
  one child, a \<^verbatim>\<open>Text\<close> element whose only content is the label.
\<close>

theorem button_structure:
  "\<exists>ps ps'. Button colorPalette p =
     Element RN_TouchableOpacity ps [Element RN_Text ps' [TextNode (label p)]]"
  by (simp add: Button_def)

end
